theory Spec2Isabelle
  imports Main
begin

section \<open>The artist page of the-secret-source\<close>

text \<open>
  A shallow embedding of \<^verbatim>\<open>src/components/home-page.tsx\<close>: the component state held
  in the \<^verbatim>\<open>useState\<close> hooks, the asynchronous \<^verbatim>\<open>fetchArtist\<close> callback split at its
  single \<^verbatim>\<open>await\<close>, the effect that follows the two filter props, the keyboard handler
  and the render decision. Thrown JavaScript errors are values of a sum type
  (\<open>Inl\<close> is a throw), state updates are explicit state passing, and the interleaving
  of suspended \<^verbatim>\<open>fetchArtist\<close> calls with other events is a step function over an
  event list. The handlers of the button and of the keyboard read the state through
  the closure of the last committed render, which the component keeps beside the
  state itself.
\<close>

subsection \<open>Data\<close>

text \<open>
  Modelled from the spec: the type \<^verbatim>\<open>Artist\<close> of \<^verbatim>\<open>@/lib/types\<close> is not part of the
  sources at hand. The record follows the data model of the specification (an artist
  record has a name, the identifier of its dataset and an ordered sequence of links,
  each a link type with a url).
\<close>

record Link =
  linkType :: string
  url :: string

record Artist =
  name :: string
  datasetId :: string
  links :: "Link list"

text \<open>
  The argument object of \<^verbatim>\<open>getRandomArtist\<close>, built in \<^verbatim>\<open>fetchArtist\<close> from the two
  props. Both props are arrays of strings (\<^verbatim>\<open>string[]\<close>).
\<close>

record FilterRequest =
  datasets :: "string list"
  linkTypes :: "string list"

text \<open>
  A thrown value, reduced to what the \<^verbatim>\<open>catch\<close> block reads from it. \<open>Nullish\<close> is
  \<^verbatim>\<open>undefined\<close> or \<^verbatim>\<open>null\<close>, on which reading \<^verbatim>\<open>e.message\<close> raises a \<^verbatim>\<open>TypeError\<close>;
  \<open>JsError m\<close> is any other value, with its \<^verbatim>\<open>message\<close> when that is a string and
  \<open>None\<close> when the value has no message (\<^verbatim>\<open>undefined\<close>, \<^verbatim>\<open>null\<close>). A value whose
  \<^verbatim>\<open>message\<close> is neither a string nor absent has no image in this type.
\<close>

datatype JsError = Nullish | JsError "string option"

text \<open>An error raised by the runtime inside the \<^verbatim>\<open>catch\<close> block.\<close>

datatype RuntimeError = TypeError

definition newError :: "string \<Rightarrow> JsError" where
  "newError m = JsError (Some m)"

text \<open>
  The four failure kinds of the specification and the text under which
  \<^verbatim>\<open>fetchArtist\<close> throws each of them.
\<close>

datatype SelectionError =
  NoDatasetSelected | NoLinkTypeSelected | NoMatchForFilters | NoDataAvailable

fun errorText :: "SelectionError \<Rightarrow> string" where
  "errorText NoMatchForFilters =
     ''No artists found for the selected filters. Try adjusting your filters.''"
| "errorText NoDatasetSelected =
     ''Please select at least one dataset to discover artists.''"
| "errorText NoLinkTypeSelected =
     ''Please select at least one link type to discover artists.''"
| "errorText NoDataAvailable =
     ''No artist data could be loaded. The dataset might be empty or invalid.''"

definition fallbackText :: string where
  "fallbackText = ''Failed to fetch artist. Please try again.''"

record Toast =
  variant :: string
  title :: string
  description :: string

text \<open>
  The state of the component: the three \<^verbatim>\<open>useState\<close> cells that the claims speak
  about, the \<^verbatim>\<open>isPending\<close> flag of \<^verbatim>\<open>useTransition\<close>, and the two output channels
  written by the \<^verbatim>\<open>catch\<close> block (toasts shown, values passed to \<^verbatim>\<open>console.error\<close>).
\<close>

record HomeState =
  artist :: "Artist option"
  isLoading :: bool
  error :: "string option"
  isPending :: bool
  toasts :: "Toast list"
  consoleErrors :: "JsError list"

definition initialState :: HomeState where
  "initialState =
     \<lparr>artist = None, isLoading = True, error = None, isPending = False,
      toasts = [], consoleErrors = []\<rparr>"

subsection \<open>The selector behind \<^verbatim>\<open>getRandomArtist\<close>\<close>

text \<open>
  Modelled from the spec: \<^verbatim>\<open>getRandomArtist\<close> of \<^verbatim>\<open>@/ai/flows/artist-randomizer\<close> is
  not part of the sources at hand. Following section 4.1 of the specification, a record
  is eligible iff its dataset identifier is among the requested datasets and at least
  one of its links has a requested link type; the eligible subset keeps the order of
  the collection; a non-empty subset of size \<open>k\<close> yields one of its elements, an empty
  one yields no artist (\<^verbatim>\<open>null\<close> for the caller). The random source is injected, as
  the design notes of the specification ask: \<open>draw\<close> is the number delivered by the
  generator and the element at position \<open>draw mod k\<close> is returned.
\<close>

definition eligible :: "FilterRequest \<Rightarrow> Artist \<Rightarrow> bool" where
  "eligible request r \<longleftrightarrow>
     datasetId r \<in> set (datasets request) \<and>
     list_ex (\<lambda>l. linkType l \<in> set (linkTypes request)) (links r)"

definition eligibleSubset :: "Artist list \<Rightarrow> FilterRequest \<Rightarrow> Artist list" where
  "eligibleSubset allArtists request = filter (eligible request) allArtists"

definition getRandomArtist :: "nat \<Rightarrow> Artist list \<Rightarrow> FilterRequest \<Rightarrow> Artist option" where
  "getRandomArtist draw allArtists request =
     (let subset = eligibleSubset allArtists request;
          k = length subset
      in if k = 0 then None else Some (subset ! (draw mod k)))"

subsection \<open>\<^verbatim>\<open>fetchArtist\<close>\<close>

text \<open>
  The synchronous prefix of \<^verbatim>\<open>fetchArtist\<close>, up to the \<^verbatim>\<open>await\<close>:
  \<^verbatim>\<open>setIsLoading(true); setError(null); setArtist(null)\<close>.
\<close>

definition fetchArtist_begin :: "HomeState \<Rightarrow> HomeState" where
  "fetchArtist_begin s = s\<lparr>isLoading := True, error := None, artist := None\<rparr>"

text \<open>
  The body of the \<^verbatim>\<open>try\<close> block after the \<^verbatim>\<open>await\<close>. The argument \<open>awaited\<close> is what the
  promise of \<^verbatim>\<open>getRandomArtist\<close> settled to: a rejection, or a value that is an artist
  or \<^verbatim>\<open>null\<close>. The four \<^verbatim>\<open>throw\<close> statements are kept in the order of the source.
\<close>

definition fetchArtist_try ::
  "string list \<Rightarrow> string list \<Rightarrow> JsError + Artist option \<Rightarrow> JsError + Artist" where
  "fetchArtist_try selectedDatasets selectedLinkTypes awaited =
     (case awaited of
        Inl e \<Rightarrow> Inl e
      | Inr (Some artistData) \<Rightarrow> Inr artistData
      | Inr None \<Rightarrow>
          if length selectedDatasets > 0 \<and> length selectedLinkTypes > 0 then
            Inl (newError
              ''No artists found for the selected filters. Try adjusting your filters.'')
          else if length selectedDatasets = 0 then
            Inl (newError ''Please select at least one dataset to discover artists.'')
          else if length selectedLinkTypes = 0 then
            Inl (newError ''Please select at least one link type to discover artists.'')
          else
            Inl (newError
              ''No artist data could be loaded. The dataset might be empty or invalid.''))"

text \<open>\<^verbatim>\<open>String.prototype.includes\<close> on byte strings.\<close>

fun startsWith :: "string \<Rightarrow> string \<Rightarrow> bool" where
  "startsWith s [] = True"
| "startsWith [] (c # cs) = False"
| "startsWith (x # xs) (c # cs) = (x = c \<and> startsWith xs cs)"

fun includesStr :: "string \<Rightarrow> string \<Rightarrow> bool" where
  "includesStr [] t = (t = [])"
| "includesStr (x # xs) t = (startsWith (x # xs) t \<or> includesStr xs t)"

text \<open>
  The first line of the \<^verbatim>\<open>catch\<close> block,
  \<^verbatim>\<open>e.message || "Failed to fetch artist. Please try again."\<close>: reading the message
  of \<^verbatim>\<open>undefined\<close> or \<^verbatim>\<open>null\<close> raises a \<^verbatim>\<open>TypeError\<close>; an absent and an empty
  message give the fallback text.
\<close>

fun errorMessageOf :: "JsError \<Rightarrow> RuntimeError + string" where
  "errorMessageOf Nullish = Inl TypeError"
| "errorMessageOf (JsError None) = Inr fallbackText"
| "errorMessageOf (JsError (Some m)) = Inr (if m = [] then fallbackText else m)"

text \<open>
  The rest of the \<^verbatim>\<open>catch\<close> block: \<^verbatim>\<open>setError\<close>, the toast unless the text holds one
  of three words, and \<^verbatim>\<open>console.error\<close>.
\<close>

definition reportError :: "string \<Rightarrow> JsError \<Rightarrow> HomeState \<Rightarrow> HomeState" where
  "reportError errorMessage e s =
     s\<lparr>error := Some errorMessage,
       toasts :=
         (if \<not> includesStr errorMessage ''filters'' \<and>
             \<not> includesStr errorMessage ''dataset'' \<and>
             \<not> includesStr errorMessage ''link type''
          then toasts s @
            [\<lparr>variant = ''destructive'', title = ''Error'',
              description = ''Could not fetch a new artist. Please try again later.''\<rparr>]
          else toasts s),
       consoleErrors := consoleErrors s @ [e]\<rparr>"

text \<open>
  The \<^verbatim>\<open>catch\<close> block: \<open>Inl\<close> when it raises itself, with the state it had reached
  (nothing is set before the message is read), \<open>Inr\<close> with the new state otherwise.
\<close>

definition fetchArtist_catch ::
  "JsError \<Rightarrow> HomeState \<Rightarrow> RuntimeError \<times> HomeState + HomeState" where
  "fetchArtist_catch e s =
     (case errorMessageOf e of
        Inl t \<Rightarrow> Inl (t, s)
      | Inr errorMessage \<Rightarrow> Inr (reportError errorMessage e s))"

definition fetchArtist_finally :: "HomeState \<Rightarrow> HomeState" where
  "fetchArtist_finally s = s\<lparr>isLoading := False\<rparr>"

text \<open>
  The continuation of \<^verbatim>\<open>fetchArtist\<close> after the \<^verbatim>\<open>await\<close>: \<^verbatim>\<open>try\<close>, \<^verbatim>\<open>catch\<close>,
  \<^verbatim>\<open>finally\<close>. The result is \<open>Inr\<close> with the new state when the function completes,
  and \<open>Inl\<close> when the error raised inside \<^verbatim>\<open>catch\<close> leaves the function, together
  with the state that the \<^verbatim>\<open>finally\<close> block left behind.
\<close>

definition fetchArtist_resume ::
  "string list \<Rightarrow> string list \<Rightarrow> JsError + Artist option \<Rightarrow> HomeState \<Rightarrow>
   RuntimeError \<times> HomeState + HomeState"
  where
  "fetchArtist_resume selectedDatasets selectedLinkTypes awaited s =
     (case fetchArtist_try selectedDatasets selectedLinkTypes awaited of
        Inr artistData \<Rightarrow> Inr (fetchArtist_finally (s\<lparr>artist := Some artistData\<rparr>))
      | Inl e \<Rightarrow>
          (case fetchArtist_catch e s of
             Inr s' \<Rightarrow> Inr (fetchArtist_finally s')
           | Inl (t, s') \<Rightarrow> Inl (t, fetchArtist_finally s')))"

text \<open>The state a call leaves behind, whether it completes or raises.\<close>

definition stateAfter :: "RuntimeError \<times> HomeState + HomeState \<Rightarrow> HomeState" where
  "stateAfter r = (case r of Inl (t, s) \<Rightarrow> s | Inr s \<Rightarrow> s)"

text \<open>A call of \<^verbatim>\<open>fetchArtist\<close> that nothing interrupts at its \<^verbatim>\<open>await\<close>.\<close>

definition fetchArtist ::
  "string list \<Rightarrow> string list \<Rightarrow> JsError + Artist option \<Rightarrow> HomeState \<Rightarrow>
   RuntimeError \<times> HomeState + HomeState"
  where
  "fetchArtist selectedDatasets selectedLinkTypes awaited s =
     fetchArtist_resume selectedDatasets selectedLinkTypes awaited (fetchArtist_begin s)"

text \<open>
  The selection operation of the specification as the page carries it out: the
  selector is asked, and the \<^verbatim>\<open>try\<close> block classifies an absent artist.
\<close>

definition selectRandomArtist :: "nat \<Rightarrow> Artist list \<Rightarrow> FilterRequest \<Rightarrow> JsError + Artist" where
  "selectRandomArtist draw allArtists request =
     fetchArtist_try (datasets request) (linkTypes request)
       (Inr (getRandomArtist draw allArtists request))"

text \<open>
  The failure classification in the words of section 4.1, step 3, of the
  specification: datasets empty, else link types empty, else both non-empty and no
  record matched, else the catch-all.
\<close>

definition classifyBySpec :: "Artist list \<Rightarrow> FilterRequest \<Rightarrow> SelectionError" where
  "classifyBySpec allArtists request =
     (if datasets request = [] then NoDatasetSelected
      else if linkTypes request = [] then NoLinkTypeSelected
      else if datasets request \<noteq> [] \<and> linkTypes request \<noteq> [] \<and>
              eligibleSubset allArtists request = [] then NoMatchForFilters
      else NoDataAvailable)"

subsection \<open>Rendering\<close>

definition isDiscovering :: "HomeState \<Rightarrow> bool" where
  "isDiscovering s \<longleftrightarrow> isPending s \<or> isLoading s"

definition canDiscover :: "string list \<Rightarrow> string list \<Rightarrow> bool" where
  "canDiscover selectedDatasets selectedLinkTypes \<longleftrightarrow>
     length selectedDatasets > 0 \<and> length selectedLinkTypes > 0"

text \<open>
  What the status region shows: the skeleton while discovering, else the artist card
  if there is an artist, else the alert if \<^verbatim>\<open>error\<close> is truthy (neither \<^verbatim>\<open>null\<close> nor
  empty), else nothing.
\<close>

datatype View = Loading | Success Artist | Error string | Nothing

definition render :: "HomeState \<Rightarrow> View" where
  "render s =
     (if isDiscovering s then Loading
      else case artist s of
             Some a \<Rightarrow> Success a
           | None \<Rightarrow>
               (case error s of
                  Some e \<Rightarrow> if e \<noteq> [] then Error e else Nothing
                | None \<Rightarrow> Nothing))"

subsection \<open>The keyboard handler\<close>

record Element =
  tagName :: string
  isContentEditable :: bool

record KeyboardEvent =
  target :: "Element option"
  code :: string

record KeyDownEffect =
  defaultPrevented :: bool
  newArtistRequested :: bool

text \<open>
  \<^verbatim>\<open>handleKeyDown\<close>, with \<^verbatim>\<open>document.activeElement\<close> as an argument. The result says
  whether \<^verbatim>\<open>event.preventDefault()\<close> and \<^verbatim>\<open>handleNewArtist()\<close> were called.
\<close>

definition handleKeyDown ::
  "bool \<Rightarrow> bool \<Rightarrow> KeyboardEvent \<Rightarrow> Element option \<Rightarrow> KeyDownEffect" where
  "handleKeyDown canDisc isDisc event activeElement =
     (if (case target event of
            None \<Rightarrow> False
          | Some t \<Rightarrow> tagName t = ''INPUT'' \<or> tagName t = ''TEXTAREA'' \<or> isContentEditable t)
      then \<lparr>defaultPrevented = False, newArtistRequested = False\<rparr>
      else if code event = ''Space'' \<and> map_option tagName activeElement \<noteq> Some ''BUTTON''
      then \<lparr>defaultPrevented = True, newArtistRequested = (canDisc \<and> \<not> isDisc)\<rparr>
      else \<lparr>defaultPrevented = False, newArtistRequested = False\<rparr>)"

subsection \<open>The component as a transition system\<close>

text \<open>
  The mounted component: \<open>state\<close> holds the value of each cell once every update
  queued so far is applied; \<open>rendered\<close> holds the state as of the last committed
  render, which is what the closures of that render (the \<^verbatim>\<open>disabled\<close> attribute of
  the button, the keydown listener) see; then the two props, and the calls of
  \<^verbatim>\<open>fetchArtist\<close> that are suspended at their \<^verbatim>\<open>await\<close>, each with the props its
  closure captured.
\<close>

record Component =
  state :: HomeState
  rendered :: HomeState
  selectedDatasets :: "string list"
  selectedLinkTypes :: "string list"
  inFlight :: "(string list \<times> string list) list"

definition callFetchArtist :: "Component \<Rightarrow> Component" where
  "callFetchArtist c =
     c\<lparr>state := fetchArtist_begin (state c),
       inFlight := inFlight c @ [(selectedDatasets c, selectedLinkTypes c)]\<rparr>"

text \<open>The \<^verbatim>\<open>else\<close> branch of the effect on the filter props.\<close>

definition effectWithoutFetch :: "string list \<Rightarrow> string list \<Rightarrow> HomeState \<Rightarrow> HomeState" where
  "effectWithoutFetch ds ls s =
     (let s1 = s\<lparr>artist := None\<rparr>;
          s2 = (if length ds = 0 then
                  s1\<lparr>error := Some ''Please select at least one dataset to discover artists.''\<rparr>
                else if length ls = 0 then
                  s1\<lparr>error := Some ''Please select at least one link type to discover artists.''\<rparr>
                else s1)
      in s2\<lparr>isLoading := False\<rparr>)"

definition filtersEffect :: "Component \<Rightarrow> Component" where
  "filtersEffect c =
     (if length (selectedDatasets c) > 0 \<and> length (selectedLinkTypes c) > 0
      then callFetchArtist c
      else c\<lparr>state := effectWithoutFetch (selectedDatasets c) (selectedLinkTypes c) (state c)\<rparr>)"

definition handleNewArtist :: "Component \<Rightarrow> Component" where
  "handleNewArtist c = callFetchArtist c"

definition mount :: "string list \<Rightarrow> string list \<Rightarrow> Component" where
  "mount ds ls =
     filtersEffect
       \<lparr>state = initialState, rendered = initialState,
        selectedDatasets = ds, selectedLinkTypes = ls, inFlight = []\<rparr>"

text \<open>
  What can happen to the mounted component: the parent passes new filter props (the
  component renders with them and the effect runs again), the button is clicked, a
  key goes down, the promise awaited by the \<open>i\<close>-th suspended call settles, React
  changes \<^verbatim>\<open>isPending\<close>, or React commits a render of the current state. The guards
  of the button and of the keyboard handler read \<open>rendered\<close>: until the next render
  is committed they do not see what a handler has just set.
\<close>

datatype Event =
    FiltersChanged "string list" "string list"
  | ButtonClick
  | KeyDown KeyboardEvent "Element option"
  | Settled nat "JsError + Artist option"
  | PendingChanged bool
  | Rerender

fun step :: "Component \<Rightarrow> Event \<Rightarrow> Component" where
  "step c (FiltersChanged ds ls) =
     filtersEffect (c\<lparr>rendered := state c, selectedDatasets := ds, selectedLinkTypes := ls\<rparr>)"
| "step c ButtonClick =
     (if isDiscovering (rendered c) \<or> \<not> canDiscover (selectedDatasets c) (selectedLinkTypes c)
      then c else handleNewArtist c)"
| "step c (KeyDown event activeElement) =
     (if newArtistRequested
           (handleKeyDown (canDiscover (selectedDatasets c) (selectedLinkTypes c))
              (isDiscovering (rendered c)) event activeElement)
      then handleNewArtist c else c)"
| "step c (Settled i awaited) =
     (if i < length (inFlight c) then
        c\<lparr>state :=
            stateAfter
              (fetchArtist_resume (fst (inFlight c ! i)) (snd (inFlight c ! i)) awaited (state c)),
          inFlight := take i (inFlight c) @ drop (Suc i) (inFlight c)\<rparr>
      else c)"
| "step c (PendingChanged b) = c\<lparr>state := (state c)\<lparr>isPending := b\<rparr>\<rparr>"
| "step c Rerender = c\<lparr>rendered := state c\<rparr>"

definition run :: "Component \<Rightarrow> Event list \<Rightarrow> Component" where
  "run c es = foldl step c es"

text \<open>
  A run in which, while a call of \<^verbatim>\<open>fetchArtist\<close> is suspended, the filter props do
  not change and no further call is started.
\<close>

fun isFiltersChanged :: "Event \<Rightarrow> bool" where
  "isFiltersChanged (FiltersChanged ds ls) = True"
| "isFiltersChanged e = False"

fun undisturbed :: "Component \<Rightarrow> Event list \<Rightarrow> bool" where
  "undisturbed c [] = True"
| "undisturbed c (e # es) =
     ((inFlight c = [] \<or>
       (\<not> isFiltersChanged e \<and> length (inFlight (step c e)) \<le> length (inFlight c))) \<and>
      undisturbed (step c e) es)"

text \<open>
  The invariant of such runs: at most one call is suspended; while one is, the state
  has neither artist nor error; and the artist and the error are never both present.
\<close>

definition exclusiveInFlight :: "Component \<Rightarrow> bool" where
  "exclusiveInFlight c \<longleftrightarrow>
     length (inFlight c) \<le> 1 \<and>
     (inFlight c \<noteq> [] \<longrightarrow> artist (state c) = None \<and> error (state c) = None) \<and>
     (artist (state c) = None \<or> error (state c) = None)"

section \<open>Basic facts\<close>

lemma errorText_inject: "errorText a = errorText b \<longleftrightarrow> a = b"
  by (cases a; cases b) simp_all

lemma errorText_not_fallback: "errorText v \<noteq> fallbackText"
  by (cases v) (simp_all add: fallbackText_def)

lemma errorText_not_empty: "errorText v \<noteq> []"
  by (cases v) simp_all

lemma newError_inject: "newError a = newError b \<longleftrightarrow> a = b"
  by (simp add: newError_def)

lemma errorMessageOf_errorText: "errorMessageOf (newError (errorText v)) = Inr (errorText v)"
  using errorText_not_empty [of v] by (simp add: newError_def del: errorText.simps)

lemma errorMessageOf_text_not_empty: "errorMessageOf e = Inr m \<Longrightarrow> m \<noteq> []"
  by (cases e rule: errorMessageOf.cases) (auto simp: fallbackText_def split: if_splits)

lemma errorMessageOf_raises: "errorMessageOf e = Inl t \<longleftrightarrow> e = Nullish \<and> t = TypeError"
  by (cases e rule: errorMessageOf.cases) auto

lemma errorMessageOf_object: "e \<noteq> Nullish \<Longrightarrow> \<exists>m. errorMessageOf e = Inr m"
  by (cases e rule: errorMessageOf.cases) auto

text \<open>Each of the four texts holds one of the words that suppress the toast.\<close>

lemma errorText_no_toast:
  "includesStr (errorText v) ''filters'' \<or> includesStr (errorText v) ''dataset'' \<or>
   includesStr (errorText v) ''link type''"
  by (cases v) simp_all

lemma getRandomArtist_None:
  "getRandomArtist draw allArtists request = None \<longleftrightarrow>
   eligibleSubset allArtists request = []"
  by (simp add: getRandomArtist_def Let_def)

lemma getRandomArtist_Some:
  "getRandomArtist draw allArtists request = Some r \<Longrightarrow>
   r \<in> set (eligibleSubset allArtists request)"
  by (auto simp: getRandomArtist_def Let_def split: if_splits)

lemma eligibleSubset_no_datasets:
  "datasets request = [] \<Longrightarrow> eligibleSubset allArtists request = []"
  by (simp add: eligibleSubset_def eligible_def)

lemma eligibleSubset_no_linkTypes:
  "linkTypes request = [] \<Longrightarrow> eligibleSubset allArtists request = []"
  by (simp add: eligibleSubset_def eligible_def list_ex_iff)

lemma eligibleSubset_no_artists: "eligibleSubset [] request = []"
  by (simp add: eligibleSubset_def)

text \<open>
  What the \<^verbatim>\<open>try\<close> block throws when the selector answered \<^verbatim>\<open>null\<close>: the fourth
  \<^verbatim>\<open>throw\<close> is never reached, because the first three conditions cover every case.
\<close>

lemma fetchArtist_try_null:
  "fetchArtist_try ds ls (Inr None) =
     Inl (newError (errorText
       (if ds = [] then NoDatasetSelected
        else if ls = [] then NoLinkTypeSelected else NoMatchForFilters)))"
  by (simp add: fetchArtist_try_def)

lemma fetchArtist_try_Inr:
  "fetchArtist_try ds ls awaited = Inr a \<longleftrightarrow> awaited = Inr (Some a)"
  by (auto simp: fetchArtist_try_def split: sum.splits option.splits)

text \<open>The \<^verbatim>\<open>try\<close> block throws no nullish value of its own.\<close>

lemma fetchArtist_try_Nullish:
  "fetchArtist_try ds ls awaited = Inl Nullish \<longleftrightarrow> awaited = Inl Nullish"
  by (auto simp: fetchArtist_try_def newError_def split: sum.splits option.splits)

lemma selectRandomArtist_empty:
  "eligibleSubset allArtists request = [] \<Longrightarrow>
   selectRandomArtist draw allArtists request =
     Inl (newError (errorText
       (if datasets request = [] then NoDatasetSelected
        else if linkTypes request = [] then NoLinkTypeSelected else NoMatchForFilters)))"
  using getRandomArtist_None [of draw allArtists request]
  by (simp add: selectRandomArtist_def fetchArtist_try_null)

lemma classifyBySpec_empty:
  "eligibleSubset allArtists request = [] \<Longrightarrow>
   classifyBySpec allArtists request =
     (if datasets request = [] then NoDatasetSelected
      else if linkTypes request = [] then NoLinkTypeSelected else NoMatchForFilters)"
  by (simp add: classifyBySpec_def)

lemma selectRandomArtist_classified:
  "eligibleSubset allArtists request = [] \<Longrightarrow>
   selectRandomArtist draw allArtists request
     = Inl (newError (errorText (classifyBySpec allArtists request)))"
  using selectRandomArtist_empty [of allArtists request draw]
  by (simp add: classifyBySpec_empty del: errorText.simps)

lemma expected_conditions_empty:
  "datasets request = [] \<or> linkTypes request = [] \<or> allArtists = [] \<or>
   eligibleSubset allArtists request = [] \<Longrightarrow> eligibleSubset allArtists request = []"
  using eligibleSubset_no_datasets eligibleSubset_no_linkTypes eligibleSubset_no_artists
  by blast

lemma effectWithoutFetch_fields:
  "artist (effectWithoutFetch ds ls s) = None"
  "isLoading (effectWithoutFetch ds ls s) = False"
  "error (effectWithoutFetch ds ls s) =
     (if ds = [] then Some (errorText NoDatasetSelected)
      else if ls = [] then Some (errorText NoLinkTypeSelected) else error s)"
  "isPending (effectWithoutFetch ds ls s) = isPending s"
  by (simp_all add: effectWithoutFetch_def Let_def)

lemma fetchArtist_begin_fields:
  "artist (fetchArtist_begin s) = None"
  "error (fetchArtist_begin s) = None"
  "isLoading (fetchArtist_begin s) = True"
  "isPending (fetchArtist_begin s) = isPending s"
  "toasts (fetchArtist_begin s) = toasts s"
  by (simp_all add: fetchArtist_begin_def)

lemma reportError_fields:
  "error (reportError m e s) = Some m"
  "artist (reportError m e s) = artist s"
  "isLoading (reportError m e s) = isLoading s"
  "isPending (reportError m e s) = isPending s"
  by (simp_all add: reportError_def)

lemma reportError_toasts:
  "toasts (reportError (errorText v) e s) = toasts s"
  using errorText_no_toast [of v]
  by (auto simp add: reportError_def simp del: errorText.simps)

lemma fetchArtist_finally_fields:
  "error (fetchArtist_finally s) = error s"
  "artist (fetchArtist_finally s) = artist s"
  "isLoading (fetchArtist_finally s) = False"
  "isPending (fetchArtist_finally s) = isPending s"
  "toasts (fetchArtist_finally s) = toasts s"
  by (simp_all add: fetchArtist_finally_def)

lemma fetchArtist_resume_thrown:
  "fetchArtist_try ds ls awaited = Inl e \<Longrightarrow> errorMessageOf e = Inr m \<Longrightarrow>
   fetchArtist_resume ds ls awaited s = Inr (fetchArtist_finally (reportError m e s))"
  by (simp add: fetchArtist_resume_def fetchArtist_catch_def)

lemma fetchArtist_resume_raised:
  "fetchArtist_try ds ls awaited = Inl e \<Longrightarrow> errorMessageOf e = Inl t \<Longrightarrow>
   fetchArtist_resume ds ls awaited s = Inl (t, fetchArtist_finally s)"
  by (simp add: fetchArtist_resume_def fetchArtist_catch_def)

lemma fetchArtist_resume_returned:
  "fetchArtist_try ds ls awaited = Inr a \<Longrightarrow>
   fetchArtist_resume ds ls awaited s = Inr (fetchArtist_finally (s\<lparr>artist := Some a\<rparr>))"
  by (simp add: fetchArtist_resume_def)

text \<open>
  A rejection with \<^verbatim>\<open>undefined\<close> or \<^verbatim>\<open>null\<close>: the \<^verbatim>\<open>catch\<close> block raises before it
  sets anything, \<^verbatim>\<open>finally\<close> ends the loading, and the error leaves the call.
\<close>

lemma nullish_rejection_escapes:
  "fetchArtist ds ls (Inl Nullish) s
     = Inl (TypeError, s\<lparr>isLoading := False, error := None, artist := None\<rparr>)"
  by (simp add: fetchArtist_def fetchArtist_resume_def fetchArtist_try_def fetchArtist_catch_def
      fetchArtist_finally_def fetchArtist_begin_def)

subsection \<open>Rendering after each part of a call\<close>

lemma render_begin: "render (fetchArtist_begin s) = Loading"
  by (simp add: render_def isDiscovering_def fetchArtist_begin_fields)

lemma render_initialState: "render initialState = Loading"
  by (simp add: render_def isDiscovering_def initialState_def)

lemma render_resume:
  assumes "\<not> isPending s" and "awaited \<noteq> Inl Nullish"
  shows "\<exists>s'. fetchArtist_resume ds ls awaited s = Inr s' \<and>
              render s' =
                (case fetchArtist_try ds ls awaited of
                   Inr a \<Rightarrow> Success a
                 | Inl err \<Rightarrow>
                     (case artist s of
                        Some stale \<Rightarrow> Success stale
                      | None \<Rightarrow>
                          (case errorMessageOf err of
                             Inr m \<Rightarrow> Error m
                           | Inl t \<Rightarrow> Nothing)))"
proof (cases "fetchArtist_try ds ls awaited")
  case (Inl err)
  then have "err \<noteq> Nullish"
    using assms(2) by (auto simp: fetchArtist_try_Nullish)
  then obtain m where m: "errorMessageOf err = Inr m"
    using errorMessageOf_object by blast
  then have "m \<noteq> []"
    by (rule errorMessageOf_text_not_empty)
  then show ?thesis
    using assms(1) Inl m
    by (simp add: fetchArtist_resume_thrown [OF Inl m] render_def isDiscovering_def
        fetchArtist_finally_fields reportError_fields split: option.splits)
next
  case (Inr a)
  then show ?thesis
    using assms(1)
    by (simp add: fetchArtist_resume_returned render_def isDiscovering_def
        fetchArtist_finally_fields)
qed

lemma render_fetchArtist:
  assumes "\<not> isPending s" and "awaited \<noteq> Inl Nullish"
  shows "\<exists>s'. fetchArtist ds ls awaited s = Inr s' \<and>
              render s' =
                (case fetchArtist_try ds ls awaited of
                   Inr a \<Rightarrow> Success a
                 | Inl err \<Rightarrow>
                     (case errorMessageOf err of
                        Inr m \<Rightarrow> Error m
                      | Inl t \<Rightarrow> Nothing))"
proof -
  have "\<not> isPending (fetchArtist_begin s)"
    using assms(1) by (simp add: fetchArtist_begin_fields)
  from render_resume [OF this assms(2), of ds ls] show ?thesis
    by (cases "fetchArtist_try ds ls awaited")
       (simp_all add: fetchArtist_def fetchArtist_begin_fields)
qed

lemma callFetchArtist_starts:
  "inFlight (callFetchArtist c) = inFlight c @ [(selectedDatasets c, selectedLinkTypes c)] \<and>
   render (state (callFetchArtist c)) = Loading"
  by (simp add: callFetchArtist_def render_begin)

lemma mount_with_filters:
  "ds \<noteq> [] \<Longrightarrow> ls \<noteq> [] \<Longrightarrow>
   inFlight (mount ds ls) = [(ds, ls)] \<and> render (state (mount ds ls)) = Loading"
  by (simp add: mount_def filtersEffect_def callFetchArtist_def render_begin)

lemma step_FiltersChanged_starts:
  "ds \<noteq> [] \<Longrightarrow> ls \<noteq> [] \<Longrightarrow>
   inFlight (step c (FiltersChanged ds ls)) = inFlight c @ [(ds, ls)] \<and>
   render (state (step c (FiltersChanged ds ls))) = Loading"
  by (simp add: filtersEffect_def callFetchArtist_def render_begin)

lemma step_FiltersChanged_empty:
  assumes "ds = [] \<or> ls = []" and "\<not> isPending (state c)"
  shows "inFlight (step c (FiltersChanged ds ls)) = inFlight c \<and>
         render (state (step c (FiltersChanged ds ls)))
           = Error (errorText (if ds = [] then NoDatasetSelected else NoLinkTypeSelected))"
  using assms
  by (auto simp add: filtersEffect_def render_def isDiscovering_def effectWithoutFetch_def
      Let_def)

lemma step_ButtonClick_starts:
  assumes "canDiscover (selectedDatasets c) (selectedLinkTypes c)"
    and "\<not> isDiscovering (rendered c)"
  shows "inFlight (step c ButtonClick) = inFlight c @ [(selectedDatasets c, selectedLinkTypes c)] \<and>
         render (state (step c ButtonClick)) = Loading"
  using assms by (simp add: handleNewArtist_def callFetchArtist_starts)

lemma step_KeyDown_starts:
  assumes "case target event of
             None \<Rightarrow> True
           | Some t \<Rightarrow> tagName t \<noteq> ''INPUT'' \<and> tagName t \<noteq> ''TEXTAREA'' \<and> \<not> isContentEditable t"
    and "code event = ''Space''"
    and "map_option tagName activeElement \<noteq> Some ''BUTTON''"
    and "canDiscover (selectedDatasets c) (selectedLinkTypes c)"
    and "\<not> isDiscovering (rendered c)"
  shows "inFlight (step c (KeyDown event activeElement))
           = inFlight c @ [(selectedDatasets c, selectedLinkTypes c)] \<and>
         render (state (step c (KeyDown event activeElement))) = Loading"
proof -
  have "newArtistRequested
          (handleKeyDown (canDiscover (selectedDatasets c) (selectedLinkTypes c))
             (isDiscovering (rendered c)) event activeElement)"
    using assms by (simp add: handleKeyDown_def split: option.splits)
  then show ?thesis
    by (simp add: handleNewArtist_def callFetchArtist_starts)
qed

lemma step_Settled_render:
  assumes "i < length (inFlight c)" and "\<not> isPending (state c)" and "awaited \<noteq> Inl Nullish"
  shows "(\<exists>a. render (state (step c (Settled i awaited))) = Success a) \<or>
         (\<exists>r. render (state (step c (Settled i awaited))) = Error r)"
proof -
  obtain s' where s': "fetchArtist_resume (fst (inFlight c ! i)) (snd (inFlight c ! i))
        awaited (state c) = Inr s'"
     and r: "render s' =
                (case fetchArtist_try (fst (inFlight c ! i)) (snd (inFlight c ! i)) awaited of
                   Inr a \<Rightarrow> Success a
                 | Inl err \<Rightarrow>
                     (case artist (state c) of
                        Some stale \<Rightarrow> Success stale
                      | None \<Rightarrow>
                          (case errorMessageOf err of
                             Inr m \<Rightarrow> Error m
                           | Inl t \<Rightarrow> Nothing)))"
    using render_resume [OF assms(2) assms(3)] by blast
  have "fetchArtist_try (fst (inFlight c ! i)) (snd (inFlight c ! i)) awaited \<noteq> Inl Nullish"
    using assms(3) by (simp add: fetchArtist_try_Nullish)
  then have "(\<exists>a. render s' = Success a) \<or> (\<exists>r. render s' = Error r)"
    unfolding r
    by (cases "fetchArtist_try (fst (inFlight c ! i)) (snd (inFlight c ! i)) awaited")
       (auto split: option.splits sum.splits simp: errorMessageOf_raises)
  then show ?thesis
    using assms(1) s' by (simp add: stateAfter_def)
qed

subsection \<open>Runs without overlapping calls\<close>

lemma callFetchArtist_exclusive:
  "inFlight c = [] \<Longrightarrow> exclusiveInFlight (callFetchArtist c)"
  by (simp add: exclusiveInFlight_def callFetchArtist_def fetchArtist_begin_fields)

lemma filtersEffect_exclusive:
  "inFlight c = [] \<Longrightarrow> exclusiveInFlight (filtersEffect c)"
  by (simp add: filtersEffect_def callFetchArtist_exclusive)
     (simp add: exclusiveInFlight_def effectWithoutFetch_fields)

lemma mount_exclusive: "exclusiveInFlight (mount ds ls)"
  unfolding mount_def by (rule filtersEffect_exclusive) simp

lemma fetchArtist_resume_exclusive:
  assumes "artist s = None" and "error s = None"
  shows "artist (stateAfter (fetchArtist_resume ds ls awaited s)) = None \<or>
         error (stateAfter (fetchArtist_resume ds ls awaited s)) = None"
proof (cases "fetchArtist_try ds ls awaited")
  case (Inl e)
  show ?thesis
  proof (cases "errorMessageOf e")
    case (Inl t)
    then show ?thesis
      using assms \<open>fetchArtist_try ds ls awaited = Inl e\<close>
      by (simp add: fetchArtist_resume_raised stateAfter_def fetchArtist_finally_fields)
  next
    case (Inr m)
    then show ?thesis
      using assms \<open>fetchArtist_try ds ls awaited = Inl e\<close>
      by (simp add: fetchArtist_resume_thrown stateAfter_def fetchArtist_finally_fields
          reportError_fields)
  qed
next
  case (Inr a)
  then show ?thesis
    using assms
    by (simp add: fetchArtist_resume_returned stateAfter_def fetchArtist_finally_fields)
qed

lemma inFlight_handleNewArtist:
  "length (inFlight (handleNewArtist c)) = Suc (length (inFlight c))"
  by (simp add: handleNewArtist_def callFetchArtist_def)

lemma step_exclusive:
  assumes "exclusiveInFlight c"
    and "inFlight c = [] \<or>
         (\<not> isFiltersChanged e \<and> length (inFlight (step c e)) \<le> length (inFlight c))"
  shows "exclusiveInFlight (step c e)"
proof (cases e)
  case (FiltersChanged ds ls)
  then show ?thesis
    using assms(2) by (simp add: filtersEffect_exclusive)
next
  case ButtonClick
  have "step c e = c \<or> (step c e = handleNewArtist c \<and> inFlight c = [])"
    using assms(2) ButtonClick inFlight_handleNewArtist [of c] by auto
  then show ?thesis
    using assms(1) by (auto simp: handleNewArtist_def callFetchArtist_exclusive)
next
  case (KeyDown event activeElement)
  have "step c e = c \<or> (step c e = handleNewArtist c \<and> inFlight c = [])"
    using assms(2) KeyDown inFlight_handleNewArtist [of c] by auto
  then show ?thesis
    using assms(1) by (auto simp: handleNewArtist_def callFetchArtist_exclusive)
next
  case (Settled i awaited)
  show ?thesis
  proof (cases "i < length (inFlight c)")
    case False
    then show ?thesis using assms(1) Settled by simp
  next
    case True
    then have i: "i = 0" and one: "length (inFlight c) = 1"
      using assms(1) by (simp_all add: exclusiveInFlight_def)
    have none: "artist (state c) = None" "error (state c) = None"
      using assms(1) True by (auto simp: exclusiveInFlight_def)
    show ?thesis
      using Settled True i one
        fetchArtist_resume_exclusive [OF none, of "fst (inFlight c ! 0)" "snd (inFlight c ! 0)" awaited]
      by (simp add: exclusiveInFlight_def)
  qed
next
  case (PendingChanged b)
  then show ?thesis
    using assms(1) by (simp add: exclusiveInFlight_def)
next
  case Rerender
  then show ?thesis
    using assms(1) by (simp add: exclusiveInFlight_def)
qed

lemma run_exclusive:
  "exclusiveInFlight c \<Longrightarrow> undisturbed c es \<Longrightarrow> exclusiveInFlight (run c es)"
proof (induction es arbitrary: c)
  case Nil
  then show ?case by (simp add: run_def)
next
  case (Cons e es)
  have q: "undisturbed (step c e) es"
    and f: "inFlight c = [] \<or>
            (\<not> isFiltersChanged e \<and> length (inFlight (step c e)) \<le> length (inFlight c))"
    using Cons.prems(2) by simp_all
  have "exclusiveInFlight (step c e)"
    using Cons.prems(1) f by (rule step_exclusive)
  then have "exclusiveInFlight (run (step c e) es)"
    using q by (rule Cons.IH)
  then show ?case by (simp add: run_def)
qed

section \<open>An empty collection with both filters chosen\<close>

text \<open>
  Claim C1, as stated, at its own input: with no artists at all, datasets
  \<open>[''d1'']\<close> and link types \<open>[''store'']\<close>, the selection is said to fail with
  \<open>NoDataAvailable\<close>. It does not: the selector answers \<^verbatim>\<open>null\<close>, both props are
  non-empty, and the first \<^verbatim>\<open>throw\<close> of \<^verbatim>\<open>fetchArtist\<close> fires.
\<close>

theorem scenarioD_is_not_NoDataAvailable:
  "selectRandomArtist 0 [] \<lparr>datasets = [''d1''], linkTypes = [''store'']\<rparr>
     \<noteq> Inl (newError (errorText NoDataAvailable))"
  by (simp add: selectRandomArtist_empty eligibleSubset_no_artists newError_inject)

text \<open>
  Claim C1, amended: for an empty artist collection and two non-empty filters (the
  input of scenario D among them) the selection fails with \<open>NoMatchForFilters\<close>, and
  the catch-all \<open>NoDataAvailable\<close> is not reached.
\<close>

theorem empty_collection_NoMatchForFilters:
  assumes "datasets request \<noteq> []" and "linkTypes request \<noteq> []"
  shows "selectRandomArtist draw [] request = Inl (newError (errorText NoMatchForFilters)) \<and>
         selectRandomArtist draw [] request \<noteq> Inl (newError (errorText NoDataAvailable))"
  using assms
  by (simp add: selectRandomArtist_empty eligibleSubset_no_artists newError_inject)

theorem empty_collection_NoMatchForFilters_witness:
  "datasets \<lparr>datasets = [''d1''], linkTypes = [''store'']\<rparr> \<noteq> [] \<and>
   linkTypes \<lparr>datasets = [''d1''], linkTypes = [''store'']\<rparr> \<noteq> [] \<and>
   selectRandomArtist 0 [] \<lparr>datasets = [''d1''], linkTypes = [''store'']\<rparr>
     = Inl (newError (errorText NoMatchForFilters)) \<and>
   selectRandomArtist 0 [] \<lparr>datasets = [''d1''], linkTypes = [''store'']\<rparr>
     \<noteq> Inl (newError (errorText NoDataAvailable))"
  using empty_collection_NoMatchForFilters
    [of "\<lparr>datasets = [''d1''], linkTypes = [''store'']\<rparr>" 0]
  by (simp add: newError_inject)

section \<open>Both filters empty\<close>

text \<open>
  Claim C2: whenever both \<open>datasets\<close> and \<open>linkTypes\<close> of the request are empty, the
  failure is \<open>NoDatasetSelected\<close> and not \<open>NoLinkTypeSelected\<close>: the test for an empty
  dataset filter comes before the test for an empty link-type filter, in the \<^verbatim>\<open>try\<close>
  block of \<^verbatim>\<open>fetchArtist\<close> and in the \<^verbatim>\<open>else\<close> branch of the effect on the props
  alike.
\<close>

theorem both_empty_NoDatasetSelected:
  assumes "datasets request = []" and "linkTypes request = []"
  shows "selectRandomArtist draw allArtists request
           = Inl (newError (errorText NoDatasetSelected)) \<and>
         selectRandomArtist draw allArtists request
           \<noteq> Inl (newError (errorText NoLinkTypeSelected)) \<and>
         error (effectWithoutFetch (datasets request) (linkTypes request) s)
           = Some (errorText NoDatasetSelected) \<and>
         error (effectWithoutFetch (datasets request) (linkTypes request) s)
           \<noteq> Some (errorText NoLinkTypeSelected)"
proof -
  have "eligibleSubset allArtists request = []"
    using assms(1) by (rule eligibleSubset_no_datasets)
  then have "selectRandomArtist draw allArtists request
               = Inl (newError (errorText NoDatasetSelected))"
    using assms(1) by (simp add: selectRandomArtist_empty del: errorText.simps)
  moreover have "error (effectWithoutFetch (datasets request) (linkTypes request) s)
                   = Some (errorText NoDatasetSelected)"
    using assms(1) by (simp add: effectWithoutFetch_fields del: errorText.simps)
  ultimately show ?thesis
    by (simp add: newError_inject errorText_inject del: errorText.simps)
qed

theorem both_empty_NoDatasetSelected_witness:
  "datasets \<lparr>datasets = [], linkTypes = []\<rparr> = [] \<and>
   linkTypes \<lparr>datasets = [], linkTypes = []\<rparr> = [] \<and>
   selectRandomArtist 0
       [\<lparr>name = ''X'', datasetId = ''d1'', links = [\<lparr>linkType = ''store'', url = ''u''\<rparr>]\<rparr>]
       \<lparr>datasets = [], linkTypes = []\<rparr>
     = Inl (newError (errorText NoDatasetSelected)) \<and>
   error (effectWithoutFetch [] [] initialState) = Some (errorText NoDatasetSelected)"
  using both_empty_NoDatasetSelected
    [of "\<lparr>datasets = [], linkTypes = []\<rparr>" 0
        "[\<lparr>name = ''X'', datasetId = ''d1'', links = [\<lparr>linkType = ''store'', url = ''u''\<rparr>]\<rparr>]"
        initialState]
  by (simp add: newError_inject)

section \<open>Classification of every failure\<close>

text \<open>
  Claim C3: whenever the eligible subset is empty, the selection fails with the one
  kind that the precedence of the specification picks (\<open>classifyBySpec\<close>: datasets
  empty, else link types empty, else no match, else the catch-all), with no other of
  the four kinds, and the \<^verbatim>\<open>catch\<close> block reads from the thrown error that very text,
  which is never the generic fallback text. The source tests "both non-empty" first and the two empty
  filters after it; the outcome is the same for every input.
\<close>

theorem failure_classified_by_precedence:
  assumes "eligibleSubset allArtists request = []"
  shows "selectRandomArtist draw allArtists request
           = Inl (newError (errorText (classifyBySpec allArtists request))) \<and>
         (\<forall>v. selectRandomArtist draw allArtists request = Inl (newError (errorText v))
              \<longleftrightarrow> v = classifyBySpec allArtists request) \<and>
         errorMessageOf (newError (errorText (classifyBySpec allArtists request)))
           = Inr (errorText (classifyBySpec allArtists request)) \<and>
         errorText (classifyBySpec allArtists request) \<noteq> fallbackText"
proof -
  have "selectRandomArtist draw allArtists request
          = Inl (newError (errorText (classifyBySpec allArtists request)))"
    using assms by (rule selectRandomArtist_classified)
  then show ?thesis
    by (auto simp add: newError_inject errorText_inject errorMessageOf_errorText
        errorText_not_fallback simp del: errorText.simps)
qed

theorem failure_classified_by_precedence_witness:
  "eligibleSubset
       [\<lparr>name = ''X'', datasetId = ''d1'', links = [\<lparr>linkType = ''store'', url = ''u''\<rparr>]\<rparr>]
       \<lparr>datasets = [''d1''], linkTypes = [''video'']\<rparr> = [] \<and>
   selectRandomArtist 0
       [\<lparr>name = ''X'', datasetId = ''d1'', links = [\<lparr>linkType = ''store'', url = ''u''\<rparr>]\<rparr>]
       \<lparr>datasets = [''d1''], linkTypes = [''video'']\<rparr>
     = Inl (newError (errorText NoMatchForFilters)) \<and>
   classifyBySpec
       [\<lparr>name = ''X'', datasetId = ''d1'', links = [\<lparr>linkType = ''store'', url = ''u''\<rparr>]\<rparr>]
       \<lparr>datasets = [''d1''], linkTypes = [''video'']\<rparr> = NoMatchForFilters"
proof -
  have e: "eligibleSubset
       [\<lparr>name = ''X'', datasetId = ''d1'', links = [\<lparr>linkType = ''store'', url = ''u''\<rparr>]\<rparr>]
       \<lparr>datasets = [''d1''], linkTypes = [''video'']\<rparr> = []"
    by (simp add: eligibleSubset_def eligible_def)
  have c: "classifyBySpec
       [\<lparr>name = ''X'', datasetId = ''d1'', links = [\<lparr>linkType = ''store'', url = ''u''\<rparr>]\<rparr>]
       \<lparr>datasets = [''d1''], linkTypes = [''video'']\<rparr> = NoMatchForFilters"
    using e by (simp add: classifyBySpec_def)
  show ?thesis
    using failure_classified_by_precedence [OF e, of 0] e c by simp
qed

section \<open>A successful selection\<close>

text \<open>
  Claim C4: whenever the selection succeeds, the record returned is a member of the
  collection, its dataset identifier is among the requested datasets, and at least
  one of its links has a requested link type.
\<close>

theorem success_is_eligible_member:
  assumes "selectRandomArtist draw allArtists request = Inr r"
  shows "r \<in> set allArtists \<and> datasetId r \<in> set (datasets request) \<and>
         (\<exists>l \<in> set (links r). linkType l \<in> set (linkTypes request))"
proof -
  have "getRandomArtist draw allArtists request = Some r"
    using assms by (simp add: selectRandomArtist_def fetchArtist_try_Inr)
  then have "r \<in> set (eligibleSubset allArtists request)"
    by (rule getRandomArtist_Some)
  then show ?thesis
    by (simp add: eligibleSubset_def eligible_def list_ex_iff)
qed

theorem success_is_eligible_member_witness:
  "selectRandomArtist 0
       [\<lparr>name = ''X'', datasetId = ''d1'', links = [\<lparr>linkType = ''store'', url = ''u''\<rparr>]\<rparr>]
       \<lparr>datasets = [''d1''], linkTypes = [''store'']\<rparr>
     = Inr \<lparr>name = ''X'', datasetId = ''d1'', links = [\<lparr>linkType = ''store'', url = ''u''\<rparr>]\<rparr> \<and>
   \<lparr>name = ''X'', datasetId = ''d1'', links = [\<lparr>linkType = ''store'', url = ''u''\<rparr>]\<rparr>
     \<in> set [\<lparr>name = ''X'', datasetId = ''d1'', links = [\<lparr>linkType = ''store'', url = ''u''\<rparr>]\<rparr>] \<and>
   datasetId \<lparr>name = ''X'', datasetId = ''d1'', links = [\<lparr>linkType = ''store'', url = ''u''\<rparr>]\<rparr>
     \<in> set (datasets \<lparr>datasets = [''d1''], linkTypes = [''store'']\<rparr>) \<and>
   (\<exists>l \<in> set (links
        \<lparr>name = ''X'', datasetId = ''d1'', links = [\<lparr>linkType = ''store'', url = ''u''\<rparr>]\<rparr>).
      linkType l \<in> set (linkTypes \<lparr>datasets = [''d1''], linkTypes = [''store'']\<rparr>))"
proof -
  have s: "selectRandomArtist 0
       [\<lparr>name = ''X'', datasetId = ''d1'', links = [\<lparr>linkType = ''store'', url = ''u''\<rparr>]\<rparr>]
       \<lparr>datasets = [''d1''], linkTypes = [''store'']\<rparr>
     = Inr \<lparr>name = ''X'', datasetId = ''d1'', links = [\<lparr>linkType = ''store'', url = ''u''\<rparr>]\<rparr>"
    by (simp add: selectRandomArtist_def getRandomArtist_def eligibleSubset_def eligible_def
        fetchArtist_try_def)
  show ?thesis
    using success_is_eligible_member [OF s] s by simp
qed

section \<open>Expected failures are values\<close>

text \<open>
  Claim C5: under each expected condition (an empty dataset filter, an empty link-type
  filter, an empty collection, no matching record) a call of \<^verbatim>\<open>fetchArtist\<close> completes
  and no error leaves it: the error thrown inside the \<^verbatim>\<open>try\<close> block is caught in the
  same call, and the outcome is the state with \<^verbatim>\<open>error\<close> set to the text of the
  classified failure, no artist, loading over and no toast shown.
\<close>

theorem expected_failures_are_error_values:
  assumes "datasets request = [] \<or> linkTypes request = [] \<or> allArtists = [] \<or>
           eligibleSubset allArtists request = []"
  shows "\<exists>s'. fetchArtist (datasets request) (linkTypes request)
                 (Inr (getRandomArtist draw allArtists request)) s = Inr s' \<and>
              error s' = Some (errorText (classifyBySpec allArtists request)) \<and>
              artist s' = None \<and> isLoading s' = False \<and> toasts s' = toasts s"
proof -
  have e: "eligibleSubset allArtists request = []"
    using assms by (rule expected_conditions_empty)
  have "fetchArtist_try (datasets request) (linkTypes request)
          (Inr (getRandomArtist draw allArtists request))
        = Inl (newError (errorText (classifyBySpec allArtists request)))"
    using selectRandomArtist_classified [OF e, of draw]
    by (simp add: selectRandomArtist_def)
  then have "fetchArtist (datasets request) (linkTypes request)
               (Inr (getRandomArtist draw allArtists request)) s
             = Inr (fetchArtist_finally
                 (reportError (errorText (classifyBySpec allArtists request))
                    (newError (errorText (classifyBySpec allArtists request)))
                    (fetchArtist_begin s)))"
    unfolding fetchArtist_def
    by (rule fetchArtist_resume_thrown) (rule errorMessageOf_errorText)
  then show ?thesis
    by (simp add: fetchArtist_finally_fields reportError_fields reportError_toasts
        fetchArtist_begin_fields del: errorText.simps)
qed

theorem expected_failures_are_error_values_witness:
  "linkTypes \<lparr>datasets = [''d1''], linkTypes = []\<rparr> = [] \<and>
   (\<exists>s'. fetchArtist [''d1''] []
            (Inr (getRandomArtist 0
               [\<lparr>name = ''X'', datasetId = ''d1'',
                 links = [\<lparr>linkType = ''store'', url = ''u''\<rparr>]\<rparr>]
               \<lparr>datasets = [''d1''], linkTypes = []\<rparr>)) initialState = Inr s' \<and>
          error s' = Some (errorText NoLinkTypeSelected) \<and>
          artist s' = None \<and> isLoading s' = False \<and> toasts s' = [])"
proof -
  have c: "classifyBySpec
       [\<lparr>name = ''X'', datasetId = ''d1'', links = [\<lparr>linkType = ''store'', url = ''u''\<rparr>]\<rparr>]
       \<lparr>datasets = [''d1''], linkTypes = []\<rparr> = NoLinkTypeSelected"
    by (simp add: classifyBySpec_def)
  show ?thesis
    using expected_failures_are_error_values
      [of "\<lparr>datasets = [''d1''], linkTypes = []\<rparr>"
          "[\<lparr>name = ''X'', datasetId = ''d1'', links = [\<lparr>linkType = ''store'', url = ''u''\<rparr>]\<rparr>]"
          0 initialState]
    by (simp add: c initialState_def)
qed

section \<open>The space key while typing\<close>

text \<open>
  Claim C9: a keydown event whose target is an \<^verbatim>\<open>INPUT\<close> element, a \<^verbatim>\<open>TEXTAREA\<close>
  element or a content-editable element never starts a selection: \<^verbatim>\<open>handleKeyDown\<close>
  returns at once, without \<^verbatim>\<open>preventDefault\<close> and without \<^verbatim>\<open>handleNewArtist\<close>, and the
  component is left as it was.
\<close>

theorem keydown_in_text_input_ignored:
  assumes "target event = Some t"
    and "tagName t = ''INPUT'' \<or> tagName t = ''TEXTAREA'' \<or> isContentEditable t"
  shows "handleKeyDown canDisc isDisc event activeElement
           = \<lparr>defaultPrevented = False, newArtistRequested = False\<rparr> \<and>
         step c (KeyDown event activeElement) = c"
  using assms by (simp add: handleKeyDown_def)

theorem keydown_in_text_input_ignored_witness:
  "target \<lparr>target = Some \<lparr>tagName = ''INPUT'', isContentEditable = False\<rparr>, code = ''Space''\<rparr>
     = Some \<lparr>tagName = ''INPUT'', isContentEditable = False\<rparr> \<and>
   (tagName \<lparr>tagName = ''INPUT'', isContentEditable = False\<rparr> = ''INPUT'' \<or>
    tagName \<lparr>tagName = ''INPUT'', isContentEditable = False\<rparr> = ''TEXTAREA'' \<or>
    isContentEditable \<lparr>tagName = ''INPUT'', isContentEditable = False\<rparr>) \<and>
   handleKeyDown True False
       \<lparr>target = Some \<lparr>tagName = ''INPUT'', isContentEditable = False\<rparr>, code = ''Space''\<rparr> None
     = \<lparr>defaultPrevented = False, newArtistRequested = False\<rparr> \<and>
   step (run (mount [''d1''] [''store'']) [Settled 0 (Inr None), Rerender])
       (KeyDown \<lparr>target = Some \<lparr>tagName = ''INPUT'', isContentEditable = False\<rparr>, code = ''Space''\<rparr>
          None)
     = run (mount [''d1''] [''store'']) [Settled 0 (Inr None), Rerender]"
  using keydown_in_text_input_ignored
    [of "\<lparr>target = Some \<lparr>tagName = ''INPUT'', isContentEditable = False\<rparr>, code = ''Space''\<rparr>"
        "\<lparr>tagName = ''INPUT'', isContentEditable = False\<rparr>" True False None
        "run (mount [''d1''] [''store'']) [Settled 0 (Inr None), Rerender]"]
  by simp

section \<open>The view over a selection\<close>

text \<open>
  Claim C6, as stated, at a concrete run: every new request is said to re-enter the
  loading view. The page is mounted with datasets \<open>[''d1'']\<close> and link types
  \<open>[''store'']\<close>, the selection delivers the artist \<open>X\<close> and the page shows it; then
  the request changes to an empty dataset filter. The effect takes its \<^verbatim>\<open>else\<close> branch:
  no call of \<^verbatim>\<open>fetchArtist\<close> is started, \<^verbatim>\<open>isLoading\<close> is never set, and the page goes
  from the success view straight to the error view.
\<close>

theorem emptied_filter_skips_Loading:
  "render (state (run (mount [''d1''] [''store''])
       [Settled 0 (Inr (Some
          \<lparr>name = ''X'', datasetId = ''d1'', links = [\<lparr>linkType = ''store'', url = ''u''\<rparr>]\<rparr>)),
        Rerender]))
     = Success \<lparr>name = ''X'', datasetId = ''d1'', links = [\<lparr>linkType = ''store'', url = ''u''\<rparr>]\<rparr> \<and>
   render (state (run (mount [''d1''] [''store''])
       [Settled 0 (Inr (Some
          \<lparr>name = ''X'', datasetId = ''d1'', links = [\<lparr>linkType = ''store'', url = ''u''\<rparr>]\<rparr>)),
        Rerender, FiltersChanged [] [''store'']]))
     = Error ''Please select at least one dataset to discover artists.'' \<and>
   inFlight (run (mount [''d1''] [''store''])
       [Settled 0 (Inr (Some
          \<lparr>name = ''X'', datasetId = ''d1'', links = [\<lparr>linkType = ''store'', url = ''u''\<rparr>]\<rparr>)),
        Rerender, FiltersChanged [] [''store'']])
     = []"
  by (simp add: run_def mount_def filtersEffect_def callFetchArtist_def fetchArtist_begin_def
      effectWithoutFetch_def initialState_def fetchArtist_resume_def fetchArtist_try_def
      fetchArtist_finally_def stateAfter_def render_def isDiscovering_def)

text \<open>
  Claim C6, amended: the page starts in the loading view, and with two non-empty
  filters the mount effect starts a selection at once, in the loading view. Every
  request with two non-empty filters starts a call of \<^verbatim>\<open>fetchArtist\<close> and puts the page
  in the loading view: a change of the filter props, a click on the enabled button,
  and a space key that the handler accepts (the button and the handler judge by the
  last committed render). A change of the filter props that leaves a filter empty
  starts no call and goes straight to the error view of that filter. Every call,
  resumed with an answer of the selector or with a thrown error object, ends in the
  success view or in the error view, whatever happened in between; a call that
  nothing interrupts ends in the success view exactly when the selector delivered
  an artist, and otherwise in the error view with the text of the error. The views
  after a call are read once React reports no pending transition.
\<close>

theorem requests_with_filters_pass_through_Loading:
  "render initialState = Loading \<and>
   (ds \<noteq> [] \<and> ls \<noteq> [] \<longrightarrow>
      inFlight (mount ds ls) = [(ds, ls)] \<and> render (state (mount ds ls)) = Loading) \<and>
   (ds \<noteq> [] \<and> ls \<noteq> [] \<longrightarrow>
      inFlight (step c (FiltersChanged ds ls)) = inFlight c @ [(ds, ls)] \<and>
      render (state (step c (FiltersChanged ds ls))) = Loading) \<and>
   ((ds' = [] \<or> ls' = []) \<and> \<not> isPending (state c) \<longrightarrow>
      inFlight (step c (FiltersChanged ds' ls')) = inFlight c \<and>
      render (state (step c (FiltersChanged ds' ls')))
        = Error (errorText (if ds' = [] then NoDatasetSelected else NoLinkTypeSelected))) \<and>
   (canDiscover (selectedDatasets c) (selectedLinkTypes c) \<and> \<not> isDiscovering (rendered c) \<longrightarrow>
      inFlight (step c ButtonClick)
        = inFlight c @ [(selectedDatasets c, selectedLinkTypes c)] \<and>
      render (state (step c ButtonClick)) = Loading) \<and>
   ((case target event of
       None \<Rightarrow> True
     | Some t \<Rightarrow> tagName t \<noteq> ''INPUT'' \<and> tagName t \<noteq> ''TEXTAREA'' \<and> \<not> isContentEditable t) \<and>
    code event = ''Space'' \<and> map_option tagName activeElement \<noteq> Some ''BUTTON'' \<and>
    canDiscover (selectedDatasets c) (selectedLinkTypes c) \<and> \<not> isDiscovering (rendered c) \<longrightarrow>
      inFlight (step c (KeyDown event activeElement))
        = inFlight c @ [(selectedDatasets c, selectedLinkTypes c)] \<and>
      render (state (step c (KeyDown event activeElement))) = Loading) \<and>
   (i < length (inFlight c) \<and> \<not> isPending (state c) \<and> awaited \<noteq> Inl Nullish \<longrightarrow>
      (\<exists>a. render (state (step c (Settled i awaited))) = Success a) \<or>
      (\<exists>r. render (state (step c (Settled i awaited))) = Error r)) \<and>
   (\<not> isPending s \<and> awaited \<noteq> Inl Nullish \<longrightarrow>
      (\<exists>s'. fetchArtist ds ls awaited s = Inr s' \<and>
            render s' =
              (case fetchArtist_try ds ls awaited of
                 Inr a \<Rightarrow> Success a
               | Inl err \<Rightarrow>
                   (case errorMessageOf err of
                      Inr m \<Rightarrow> Error m
                    | Inl t \<Rightarrow> Nothing))))"
  using render_initialState mount_with_filters [of ds ls]
    step_FiltersChanged_starts [of ds ls c] step_FiltersChanged_empty [of ds' ls' c]
    step_ButtonClick_starts [of c] step_KeyDown_starts [of event activeElement c]
    step_Settled_render [of i c awaited] render_fetchArtist [of s awaited ds ls]
  by blast

theorem requests_with_filters_pass_through_Loading_witness:
  "([''d1''] \<noteq> [] \<and> [''video''] \<noteq> []) \<and>
   inFlight (mount [''d1''] [''video'']) = [([''d1''], [''video''])] \<and>
   render (state (mount [''d1''] [''video''])) = Loading \<and>
   inFlight (step (run (mount [''d1''] [''store'']) [Settled 0 (Inr None), Rerender, ButtonClick]) (FiltersChanged [''d1''] [''video'']))
     = inFlight (run (mount [''d1''] [''store'']) [Settled 0 (Inr None), Rerender, ButtonClick]) @ [([''d1''], [''video''])] \<and>
   render (state (step (run (mount [''d1''] [''store'']) [Settled 0 (Inr None), Rerender, ButtonClick]) (FiltersChanged [''d1''] [''video'']))) = Loading \<and>
   (([]::string list) = [] \<or> [''store''] = []) \<and> \<not> isPending (state (run (mount [''d1''] [''store'']) [Settled 0 (Inr None), Rerender, ButtonClick])) \<and>
   inFlight (step (run (mount [''d1''] [''store'']) [Settled 0 (Inr None), Rerender, ButtonClick]) (FiltersChanged [] [''store''])) = inFlight (run (mount [''d1''] [''store'']) [Settled 0 (Inr None), Rerender, ButtonClick]) \<and>
   render (state (step (run (mount [''d1''] [''store'']) [Settled 0 (Inr None), Rerender, ButtonClick]) (FiltersChanged [] [''store''])))
     = Error (errorText NoDatasetSelected) \<and>
   canDiscover (selectedDatasets (run (mount [''d1''] [''store'']) [Settled 0 (Inr None), Rerender, ButtonClick])) (selectedLinkTypes (run (mount [''d1''] [''store'']) [Settled 0 (Inr None), Rerender, ButtonClick])) \<and>
   \<not> isDiscovering (rendered (run (mount [''d1''] [''store'']) [Settled 0 (Inr None), Rerender, ButtonClick])) \<and>
   inFlight (step (run (mount [''d1''] [''store'']) [Settled 0 (Inr None), Rerender, ButtonClick]) ButtonClick) = [([''d1''], [''store'']), ([''d1''], [''store''])] \<and>
   render (state (step (run (mount [''d1''] [''store'']) [Settled 0 (Inr None), Rerender, ButtonClick]) ButtonClick)) = Loading \<and>
   code \<lparr>target = Some \<lparr>tagName = ''BODY'', isContentEditable = False\<rparr>, code = ''Space''\<rparr> = ''Space'' \<and>
   inFlight (step (run (mount [''d1''] [''store'']) [Settled 0 (Inr None), Rerender, ButtonClick]) (KeyDown \<lparr>target = Some \<lparr>tagName = ''BODY'', isContentEditable = False\<rparr>, code = ''Space''\<rparr> None)) = [([''d1''], [''store'']), ([''d1''], [''store''])] \<and>
   render (state (step (run (mount [''d1''] [''store'']) [Settled 0 (Inr None), Rerender, ButtonClick]) (KeyDown \<lparr>target = Some \<lparr>tagName = ''BODY'', isContentEditable = False\<rparr>, code = ''Space''\<rparr> None))) = Loading \<and>
   0 < length (inFlight (run (mount [''d1''] [''store'']) [Settled 0 (Inr None), Rerender, ButtonClick])) \<and>
   ((\<exists>a. render (state (step (run (mount [''d1''] [''store'']) [Settled 0 (Inr None), Rerender, ButtonClick]) (Settled 0 (Inr None)))) = Success a) \<or>
    (\<exists>r. render (state (step (run (mount [''d1''] [''store'']) [Settled 0 (Inr None), Rerender, ButtonClick]) (Settled 0 (Inr None)))) = Error r)) \<and>
   \<not> isPending initialState \<and>
   (\<exists>s'. fetchArtist [''d1''] [''video''] (Inr None) initialState = Inr s' \<and>
         render s' = Error (errorText NoMatchForFilters))"
proof -
  have c: "(run (mount [''d1''] [''store'']) [Settled 0 (Inr None), Rerender, ButtonClick]) =
      \<lparr>state = \<lparr>artist = None, isLoading = True, error = None, isPending = False,
                toasts = [], consoleErrors = [newError (errorText NoMatchForFilters)]\<rparr>,
       rendered = \<lparr>artist = None, isLoading = False,
                   error = Some (errorText NoMatchForFilters), isPending = False,
                   toasts = [], consoleErrors = [newError (errorText NoMatchForFilters)]\<rparr>,
       selectedDatasets = [''d1''], selectedLinkTypes = [''store''],
       inFlight = [([''d1''], [''store''])]\<rparr>"
    by (simp add: run_def mount_def filtersEffect_def callFetchArtist_def fetchArtist_begin_def
        initialState_def fetchArtist_resume_def fetchArtist_try_def fetchArtist_catch_def
        reportError_def fetchArtist_finally_def stateAfter_def newError_def isDiscovering_def
        canDiscover_def handleNewArtist_def)
  have p: "\<not> isPending initialState"
    by (simp add: initialState_def)
  have t: "fetchArtist_try [''d1''] [''video''] (Inr None)
             = Inl (newError (errorText NoMatchForFilters))"
    by (simp add: fetchArtist_try_null)
  have k: "code \<lparr>target = Some \<lparr>tagName = ''BODY'', isContentEditable = False\<rparr>, code = ''Space''\<rparr> = ''Space''"
    by simp
  show ?thesis
    using requests_with_filters_pass_through_Loading
      [of "[''d1'']" "[''video'']" "(run (mount [''d1''] [''store'']) [Settled 0 (Inr None), Rerender, ButtonClick])" "[]" "[''store'']" "\<lparr>target = Some \<lparr>tagName = ''BODY'', isContentEditable = False\<rparr>, code = ''Space''\<rparr>" None 0 "Inr None" initialState]
      p k
    unfolding c
    by (simp add: t errorMessageOf_errorText isDiscovering_def canDiscover_def
        del: errorText.simps step.simps)
qed

section \<open>Artist and error together\<close>

text \<open>
  Claim C10, as stated, at a concrete run: the page is mounted with datasets
  \<open>[''d1'']\<close> and link types \<open>[''store'']\<close>, so a call of \<^verbatim>\<open>fetchArtist\<close> is suspended at
  its \<^verbatim>\<open>await\<close>; the dataset filter is emptied, and the effect sets the error; then
  the suspended call is resumed with the artist found for the filters it captured.
  The state now holds an artist and an error at once.
\<close>

theorem stale_fetch_breaks_exclusion:
  "artist (state (run (mount [''d1''] [''store''])
       [FiltersChanged [] [''store''],
        Settled 0 (Inr (getRandomArtist 0
          [\<lparr>name = ''X'', datasetId = ''d1'', links = [\<lparr>linkType = ''store'', url = ''u''\<rparr>]\<rparr>]
          \<lparr>datasets = [''d1''], linkTypes = [''store'']\<rparr>))]))
     = Some \<lparr>name = ''X'', datasetId = ''d1'', links = [\<lparr>linkType = ''store'', url = ''u''\<rparr>]\<rparr> \<and>
   error (state (run (mount [''d1''] [''store''])
       [FiltersChanged [] [''store''],
        Settled 0 (Inr (getRandomArtist 0
          [\<lparr>name = ''X'', datasetId = ''d1'', links = [\<lparr>linkType = ''store'', url = ''u''\<rparr>]\<rparr>]
          \<lparr>datasets = [''d1''], linkTypes = [''store'']\<rparr>))]))
     = Some ''Please select at least one dataset to discover artists.''"
  by (simp add: run_def mount_def filtersEffect_def callFetchArtist_def fetchArtist_begin_def
      effectWithoutFetch_def initialState_def getRandomArtist_def eligibleSubset_def
      eligible_def fetchArtist_resume_def fetchArtist_try_def fetchArtist_finally_def
      stateAfter_def)

text \<open>
  Two calls can also overlap with no change of the filters: the keydown listener
  judges by the last committed render, so a second space key before the next render
  starts a second call. When one of the two delivers an artist and the other is
  rejected, the state again holds both.
\<close>

lemma overlapping_key_presses_break_exclusion:
  "inFlight (run (mount [''d1''] [''store''])
       [Settled 0 (Inr (Some \<lparr>name = ''X'', datasetId = ''d1'', links = [\<lparr>linkType = ''store'', url = ''u''\<rparr>]\<rparr>)), Rerender, KeyDown \<lparr>target = Some \<lparr>tagName = ''BODY'', isContentEditable = False\<rparr>, code = ''Space''\<rparr> None, KeyDown \<lparr>target = Some \<lparr>tagName = ''BODY'', isContentEditable = False\<rparr>, code = ''Space''\<rparr> None])
     = [([''d1''], [''store'']), ([''d1''], [''store''])] \<and>
   artist (state (run (mount [''d1''] [''store''])
       [Settled 0 (Inr (Some \<lparr>name = ''X'', datasetId = ''d1'', links = [\<lparr>linkType = ''store'', url = ''u''\<rparr>]\<rparr>)), Rerender, KeyDown \<lparr>target = Some \<lparr>tagName = ''BODY'', isContentEditable = False\<rparr>, code = ''Space''\<rparr> None, KeyDown \<lparr>target = Some \<lparr>tagName = ''BODY'', isContentEditable = False\<rparr>, code = ''Space''\<rparr> None,
        Settled 0 (Inr (Some \<lparr>name = ''X'', datasetId = ''d1'', links = [\<lparr>linkType = ''store'', url = ''u''\<rparr>]\<rparr>)), Settled 0 (Inl (newError ''Network error''))]))
     = Some \<lparr>name = ''X'', datasetId = ''d1'', links = [\<lparr>linkType = ''store'', url = ''u''\<rparr>]\<rparr> \<and>
   error (state (run (mount [''d1''] [''store''])
       [Settled 0 (Inr (Some \<lparr>name = ''X'', datasetId = ''d1'', links = [\<lparr>linkType = ''store'', url = ''u''\<rparr>]\<rparr>)), Rerender, KeyDown \<lparr>target = Some \<lparr>tagName = ''BODY'', isContentEditable = False\<rparr>, code = ''Space''\<rparr> None, KeyDown \<lparr>target = Some \<lparr>tagName = ''BODY'', isContentEditable = False\<rparr>, code = ''Space''\<rparr> None,
        Settled 0 (Inr (Some \<lparr>name = ''X'', datasetId = ''d1'', links = [\<lparr>linkType = ''store'', url = ''u''\<rparr>]\<rparr>)), Settled 0 (Inl (newError ''Network error''))]))
     = Some ''Network error''"
  by (simp add: run_def mount_def filtersEffect_def callFetchArtist_def fetchArtist_begin_def
      initialState_def fetchArtist_resume_def fetchArtist_try_def fetchArtist_catch_def
      reportError_def fetchArtist_finally_def stateAfter_def newError_def isDiscovering_def
      canDiscover_def handleNewArtist_def handleKeyDown_def)

text \<open>
  Claim C10, amended: in every run of the mounted page in which, while a call of
  \<^verbatim>\<open>fetchArtist\<close> is suspended at its \<^verbatim>\<open>await\<close>, the filter props do not change and no
  further call is started, the artist and the error are never both present.
\<close>

theorem artist_error_exclusive_without_overlap:
  assumes "undisturbed (mount ds ls) es"
  shows "\<not> (artist (state (run (mount ds ls) es)) \<noteq> None \<and>
            error (state (run (mount ds ls) es)) \<noteq> None)"
  using run_exclusive [OF mount_exclusive assms]
  by (auto simp: exclusiveInFlight_def)

theorem artist_error_exclusive_without_overlap_witness:
  "undisturbed (mount [''d1''] [''store''])
     [Settled 0 (Inr None), Rerender, KeyDown \<lparr>target = Some \<lparr>tagName = ''BODY'', isContentEditable = False\<rparr>, code = ''Space''\<rparr> None, Settled 0 (Inr (Some \<lparr>name = ''X'', datasetId = ''d1'', links = [\<lparr>linkType = ''store'', url = ''u''\<rparr>]\<rparr>)),
      FiltersChanged [] [''store'']] \<and>
   \<not> (artist (state (run (mount [''d1''] [''store''])
          [Settled 0 (Inr None), Rerender, KeyDown \<lparr>target = Some \<lparr>tagName = ''BODY'', isContentEditable = False\<rparr>, code = ''Space''\<rparr> None, Settled 0 (Inr (Some \<lparr>name = ''X'', datasetId = ''d1'', links = [\<lparr>linkType = ''store'', url = ''u''\<rparr>]\<rparr>)),
           FiltersChanged [] [''store'']])) \<noteq> None \<and>
      error (state (run (mount [''d1''] [''store''])
          [Settled 0 (Inr None), Rerender, KeyDown \<lparr>target = Some \<lparr>tagName = ''BODY'', isContentEditable = False\<rparr>, code = ''Space''\<rparr> None, Settled 0 (Inr (Some \<lparr>name = ''X'', datasetId = ''d1'', links = [\<lparr>linkType = ''store'', url = ''u''\<rparr>]\<rparr>)),
           FiltersChanged [] [''store'']])) \<noteq> None)"
proof -
  have q: "undisturbed (mount [''d1''] [''store''])
     [Settled 0 (Inr None), Rerender, KeyDown \<lparr>target = Some \<lparr>tagName = ''BODY'', isContentEditable = False\<rparr>, code = ''Space''\<rparr> None, Settled 0 (Inr (Some \<lparr>name = ''X'', datasetId = ''d1'', links = [\<lparr>linkType = ''store'', url = ''u''\<rparr>]\<rparr>)),
      FiltersChanged [] [''store'']]"
    by (simp add: mount_def filtersEffect_def callFetchArtist_def fetchArtist_begin_def
        initialState_def fetchArtist_resume_def fetchArtist_try_def fetchArtist_catch_def
        reportError_def fetchArtist_finally_def stateAfter_def newError_def isDiscovering_def
        canDiscover_def handleNewArtist_def handleKeyDown_def)
  show ?thesis
    using artist_error_exclusive_without_overlap [OF q] q by blast
qed

end
